theory Spec2Isabelle
  imports Main "HOL-Library.Word"
begin

section \<open>The session model of main.go\<close>

text \<open>
  Go's \<open>int\<close> is a 64-bit two's complement integer on the 64-bit targets the server
  is built for: \<open>+\<close> and \<open>-\<close> wrap around, comparisons are signed (\<open><s\<close>,
  \<open>\<le>s\<close>, read through \<open>sint\<close>).
\<close>

type_synonym goint = "64 word"

text \<open>
  \<open>lipgloss.Style\<close> belongs to the styling library. A style is kept as the attributes
  that \<open>teaHandler\<close> sets on it; what \<open>Style.Render\<close> makes of them depends on the
  renderer bound to the ssh session, so every function that renders takes it as the
  parameter \<open>render\<close>.
\<close>

record Style =
  marginLeft :: int
  bold :: "bool option"
  foreground :: "string option"

type_synonym renderer = "Style \<Rightarrow> string \<Rightarrow> string"

definition NewStyle :: Style where
  "NewStyle = \<lparr>marginLeft = 0, bold = None, foreground = None\<rparr>"

definition NL :: string where
  "NL = [CHR 0x0A]"

text \<open>The separator glyph is U+2022 between two blanks, in UTF-8 as Go stores it.\<close>

definition dotChar :: string where
  "dotChar = [CHR 0x20, CHR 0xE2, CHR 0x80, CHR 0xA2, CHR 0x20]"

definition RESUME_URL :: string where
  "RESUME_URL = ''https://drive.google.com/file/d/1azKao3idMCDqJdCHtCTlvc4U3ABYTtJ7/view?usp=sharing''"

definition GITHUB_URL :: string where
  "GITHUB_URL = ''https://github.com/KaustubhPatange''"

definition LINKEDIN_URL :: string where
  "LINKEDIN_URL = ''https://www.linkedin.com/in/kaustubhpatange/''"

definition TWITTER_URL :: string where
  "TWITTER_URL = ''https://twitter.com/KP206''"

record model =
  Width :: goint
  Height :: goint
  Choice :: goint
  Chosen :: bool
  mainStyle :: Style
  aboutStyle :: Style
  aboutNameStyle :: Style
  checkboxStyle :: Style
  subtleStyle :: Style
  dotStyle :: string

text \<open>
  \<open>teaHandler\<close> reads the window of the session's pty (\<open>w\<close>, \<open>h\<close>) and builds the
  styles with the session's renderer. The program options it also returns
  (the alternate screen) play no part in the model.
\<close>

definition teaHandler :: "renderer \<Rightarrow> goint \<Rightarrow> goint \<Rightarrow> model" where
  "teaHandler render w h =
     \<lparr>Width = w,
      Height = h,
      Choice = 0,
      Chosen = False,
      mainStyle = NewStyle\<lparr>marginLeft := 2\<rparr>,
      aboutStyle = NewStyle\<lparr>bold := Some True, foreground := Some ''246''\<rparr>,
      aboutNameStyle = NewStyle\<lparr>bold := Some True, foreground := Some ''33''\<rparr>,
      checkboxStyle = NewStyle\<lparr>bold := Some False, foreground := Some ''213''\<rparr>,
      subtleStyle = NewStyle\<lparr>foreground := Some ''241''\<rparr>,
      dotStyle = render (NewStyle\<lparr>foreground := Some ''236''\<rparr>) dotChar\<rparr>"

section \<open>Update\<close>

text \<open>
  A \<open>tea.Msg\<close> is any value; \<open>Update\<close> tells a \<open>tea.WindowSizeMsg\<close> and a
  \<open>tea.KeyMsg\<close> from everything else. A key message is kept as what its \<open>String()\<close>
  returns, the only thing \<open>Update\<close> reads of it.
\<close>

datatype Msg = WindowSizeMsg goint goint | KeyMsg string | OtherMsg

text \<open>The only command \<open>Update\<close> ever returns is \<open>tea.Quit\<close>; Go's \<open>nil\<close> is \<open>None\<close>.\<close>

datatype Cmd = Quit

text \<open>
  \<open>browser.OpenURL\<close> acts on the world outside and returns an \<open>error\<close> (\<open>nil\<close> on
  success). The world is the parameter \<open>b\<close>: what the call returns for a URL. Each
  call that \<open>Update\<close> makes is recorded, with what it returned, in the list of effects
  that the embedding returns beside Go's pair of results.
\<close>

type_synonym error = string
type_synonym browser = "string \<Rightarrow> error option"

datatype effect = OpenURL string "error option"

definition Update :: "browser \<Rightarrow> model \<Rightarrow> Msg \<Rightarrow> model \<times> Cmd option \<times> effect list" where
  "Update b m msg =
     (case msg of
        WindowSizeMsg w h \<Rightarrow> (m\<lparr>Width := w, Height := h\<rparr>, None, [])
      | KeyMsg k \<Rightarrow>
          if k = ''q'' \<or> k = ''ctrl+c'' then (m, Some Quit, [])
          else if k = ''j'' \<or> k = ''down'' then
            (let m1 = m\<lparr>Choice := Choice m + 1\<rparr>;
                 m2 = (if 3 <s Choice m1 then m1\<lparr>Choice := 3\<rparr> else m1)
             in (m2, None, []))
          else if k = ''k'' \<or> k = ''up'' then
            (let m1 = m\<lparr>Choice := Choice m - 1\<rparr>;
                 m2 = (if Choice m1 <s 0 then m1\<lparr>Choice := 0\<rparr> else m1)
             in (m2, None, []))
          else if k = ''enter'' then
            (if Choice m = 0 then (m, None, [OpenURL RESUME_URL (b RESUME_URL)])
             else if Choice m = 1 then (m, None, [OpenURL GITHUB_URL (b GITHUB_URL)])
             else if Choice m = 2 then (m, None, [OpenURL LINKEDIN_URL (b LINKEDIN_URL)])
             else if Choice m = 3 then (m, None, [OpenURL TWITTER_URL (b TWITTER_URL)])
             else (m, None, []))
          else (m, None, [])
      | OtherMsg \<Rightarrow> (m, None, []))"

section \<open>View\<close>

definition checkbox :: "renderer \<Rightarrow> Style \<Rightarrow> string \<Rightarrow> bool \<Rightarrow> string" where
  "checkbox render cbStyle label checked =
     (if checked then render cbStyle (''[x] '' @ label) else ''[ ] '' @ label)"

text \<open>
  The template of the about paragraph after \<open>strings.TrimSpace\<close>, with the rendered
  name in the place of its \<open>%s\<close>.
\<close>

definition about_text :: "string \<Rightarrow> string" where
  "about_text name =
     ''Hi I'm '' @ name @ '','' @ NL @ NL @
     ''A self taught developer specialized in many software domains'' @ NL @
     ''including Mobile Apps, Web, Backend, Gen AI.'' @ NL @ NL @
     ''I'm currently working at an AI startup as a FullStack '' @ NL @
     ''Engineer.'' @ NL @ NL @
     ''I'm fluent in Python, Go, Typescript, Javascript, Kotlin.''"

text \<open>The three local values of \<open>View\<close>: \<open>about\<close>, \<open>tpl\<close> and \<open>choices\<close>.\<close>

definition about :: "renderer \<Rightarrow> model \<Rightarrow> string" where
  "about render m =
     render (aboutStyle m) (about_text (render (aboutNameStyle m) ''Kaustubh Patange''))"

definition tpl :: "renderer \<Rightarrow> model \<Rightarrow> string" where
  "tpl render m =
     render (subtleStyle m) ''j/k, up/down: select'' @ dotStyle m @
     render (subtleStyle m) ''enter: choose'' @ dotStyle m @
     render (subtleStyle m) ''q, ctrl+c: quit''"

definition choices :: "renderer \<Rightarrow> model \<Rightarrow> string" where
  "choices render m =
     (let c = Choice m in
      checkbox render (checkboxStyle m) ''Resume / CV'' (c = 0) @ NL @
      checkbox render (checkboxStyle m) ''GitHub'' (c = 1) @ NL @
      checkbox render (checkboxStyle m) ''Linkedin'' (c = 2) @ NL @
      checkbox render (checkboxStyle m) ''Twitter'' (c = 3))"

definition View :: "renderer \<Rightarrow> model \<Rightarrow> string" where
  "View render m =
     (let s = about render m @ NL @ NL @ choices render m @ NL @ NL @ tpl render m
      in render (mainStyle m) (NL @ s @ NL @ NL))"

section \<open>The session loop\<close>

text \<open>
  The loop that feeds events to \<open>Update\<close> and draws \<open>View\<close> belongs to the Bubble Tea
  library. \<open>run\<close> applies \<open>Update\<close> to each event of a list in turn, starting at event
  number \<open>n\<close>; \<open>B i\<close> is how the browser service answers during event \<open>i\<close>. A session
  that ends at a quit command has applied a prefix of the list, which is again a list.
  \<open>frames\<close> collects what \<open>View\<close> draws: the first frame and one after each event.
\<close>

fun run :: "(nat \<Rightarrow> browser) \<Rightarrow> nat \<Rightarrow> model \<Rightarrow> Msg list \<Rightarrow> model" where
  "run B n m [] = m"
| "run B n m (e # es) = run B (Suc n) (fst (Update (B n) m e)) es"

fun frames :: "renderer \<Rightarrow> (nat \<Rightarrow> browser) \<Rightarrow> nat \<Rightarrow> model \<Rightarrow> Msg list \<Rightarrow> string list" where
  "frames render B n m [] = [View render m]"
| "frames render B n m (e # es) =
     View render m # frames render B (Suc n) (fst (Update (B n) m e)) es"

subsection \<open>Sample surroundings for concrete runs\<close>

text \<open>
  A renderer that brackets the text it is given with the colour of the style, and two
  browser services: one whose every call succeeds, one whose every call fails.
\<close>

definition tag_render :: renderer where
  "tag_render st txt =
     (case foreground st of None \<Rightarrow> txt | Some c \<Rightarrow> ''<'' @ c @ ''>'' @ txt @ ''</>'')"

definition browser_ok :: "nat \<Rightarrow> browser" where
  "browser_ok i u = None"

definition browser_down :: "nat \<Rightarrow> browser" where
  "browser_down i u = Some ''exec: no browser found''"

definition session0 :: model where
  "session0 = teaHandler tag_render 80 24"

subsection \<open>The words of the specification\<close>

text \<open>
  The specification writes the two navigation steps as
  \<open>selectedIndex = min(selectedIndex + 1, N-1)\<close> and
  \<open>selectedIndex = max(selectedIndex - 1, 0)\<close>. \<open>smin\<close> and \<open>smax\<close> are minimum and
  maximum of two Go \<open>int\<close>s, which compare as signed numbers.
\<close>

definition smin :: "goint \<Rightarrow> goint \<Rightarrow> goint" where
  "smin a b = (if a \<le>s b then a else b)"

definition smax :: "goint \<Rightarrow> goint \<Rightarrow> goint" where
  "smax a b = (if a \<le>s b then b else a)"

subsection \<open>What the session delivers\<close>

text \<open>
  Nothing in main.go builds a \<open>tea.WindowSizeMsg\<close> or a pty window: both come from the
  ssh transport, which is outside this repository. The ssh connection protocol
  (RFC 4254, sections 6.2 and 6.7) carries the terminal's width and height in the
  pty request and in every window-change request as unsigned 32-bit numbers; the
  transport stores them in Go \<open>int\<close>s, which \<open>teaHandler\<close> reads and \<open>Update\<close>
  receives. \<open>Event\<close> is an event as the session delivers it and \<open>deliver\<close> the
  message that reaches \<open>Update\<close>; the window that \<open>teaHandler\<close> reads is widened in
  the same way.
\<close>

type_synonym uint32 = "32 word"

datatype Event = Resize uint32 uint32 | Key string | Other

fun deliver :: "Event \<Rightarrow> Msg" where
  "deliver (Resize w h) = WindowSizeMsg (ucast w) (ucast h)"
| "deliver (Key k) = KeyMsg k"
| "deliver Other = OtherMsg"

text \<open>An event whose reported geometry, if it reports one, is not negative.\<close>

fun nonneg_resize :: "Msg \<Rightarrow> bool" where
  "nonneg_resize (WindowSizeMsg w h) = (0 \<le>s w \<and> 0 \<le>s h)"
| "nonneg_resize (KeyMsg k) = True"
| "nonneg_resize OtherMsg = True"

section \<open>Update, branch by branch\<close>

lemma Update_WindowSizeMsg:
  "Update b m (WindowSizeMsg w h) = (m\<lparr>Width := w, Height := h\<rparr>, None, [])"
  by (simp add: Update_def)

lemma Update_OtherMsg: "Update b m OtherMsg = (m, None, [])"
  by (simp add: Update_def)

lemma Update_quit_key:
  "k = ''q'' \<or> k = ''ctrl+c'' \<Longrightarrow> Update b m (KeyMsg k) = (m, Some Quit, [])"
  by (simp add: Update_def)

lemma Update_down_key:
  "k = ''j'' \<or> k = ''down'' \<Longrightarrow>
   Update b m (KeyMsg k) =
     (m\<lparr>Choice := (if 3 <s Choice m + 1 then 3 else Choice m + 1)\<rparr>, None, [])"
  by (auto simp: Update_def Let_def)

lemma Update_up_key:
  "k = ''k'' \<or> k = ''up'' \<Longrightarrow>
   Update b m (KeyMsg k) =
     (m\<lparr>Choice := (if Choice m - 1 <s 0 then 0 else Choice m - 1)\<rparr>, None, [])"
  by (auto simp: Update_def Let_def)

lemma Update_enter_key:
  "Update b m (KeyMsg ''enter'') =
     (m, None,
      if Choice m = 0 then [OpenURL RESUME_URL (b RESUME_URL)]
      else if Choice m = 1 then [OpenURL GITHUB_URL (b GITHUB_URL)]
      else if Choice m = 2 then [OpenURL LINKEDIN_URL (b LINKEDIN_URL)]
      else if Choice m = 3 then [OpenURL TWITTER_URL (b TWITTER_URL)]
      else [])"
  by (simp add: Update_def)

lemma Update_unbound_key:
  assumes "k \<notin> {''q'', ''ctrl+c'', ''j'', ''down'', ''k'', ''up'', ''enter''}"
  shows "Update b m (KeyMsg k) = (m, None, [])"
  using assms by (simp add: Update_def)

text \<open>
  Whatever the message, the model that \<open>Update\<close> returns is the old one with a new
  geometry, with the selection moved one step, or the old one as it is.
\<close>

lemma Update_model_cases:
  obtains (resize) w h where "msg = WindowSizeMsg w h"
      and "fst (Update b m msg) = m\<lparr>Width := w, Height := h\<rparr>"
  | (down) "fst (Update b m msg) =
      m\<lparr>Choice := (if 3 <s Choice m + 1 then 3 else Choice m + 1)\<rparr>"
  | (up) "fst (Update b m msg) =
      m\<lparr>Choice := (if Choice m - 1 <s 0 then 0 else Choice m - 1)\<rparr>"
  | (same) "fst (Update b m msg) = m"
proof (cases msg)
  case (WindowSizeMsg w h)
  then show ?thesis using resize by (simp add: Update_WindowSizeMsg)
next
  case OtherMsg
  then show ?thesis using same by (simp add: Update_OtherMsg)
next
  case (KeyMsg k)
  consider "k = ''q'' \<or> k = ''ctrl+c''" | "k = ''j'' \<or> k = ''down''"
    | "k = ''k'' \<or> k = ''up''" | "k = ''enter''"
    | "k \<notin> {''q'', ''ctrl+c'', ''j'', ''down'', ''k'', ''up'', ''enter''}"
    by auto
  then show ?thesis
  proof cases
    case 1
    then show ?thesis using same KeyMsg by (simp add: Update_quit_key)
  next
    case 2
    then show ?thesis using down KeyMsg by (simp add: Update_down_key)
  next
    case 3
    then show ?thesis using up KeyMsg by (simp add: Update_up_key)
  next
    case 4
    then show ?thesis using same KeyMsg by (simp add: Update_enter_key)
  next
    case 5
    then show ?thesis using same KeyMsg by (simp add: Update_unbound_key)
  qed
qed

lemma Update_fields:
  "Chosen (fst (Update b m msg)) = Chosen m"
  "mainStyle (fst (Update b m msg)) = mainStyle m"
  "aboutStyle (fst (Update b m msg)) = aboutStyle m"
  "aboutNameStyle (fst (Update b m msg)) = aboutNameStyle m"
  "checkboxStyle (fst (Update b m msg)) = checkboxStyle m"
  "subtleStyle (fst (Update b m msg)) = subtleStyle m"
  "dotStyle (fst (Update b m msg)) = dotStyle m"
  by (cases rule: Update_model_cases [of msg b m]; simp)+

lemma Update_only_geometry_and_choice:
  "fst (Update b m msg) =
     m\<lparr>Width := Width (fst (Update b m msg)),
       Height := Height (fst (Update b m msg)),
       Choice := Choice (fst (Update b m msg))\<rparr>"
  by (cases rule: Update_model_cases [of msg b m]) simp_all

lemma Update_model_indep: "fst (Update b m msg) = fst (Update b' m msg)"
  by (cases msg) (simp_all add: Update_def Let_def)

lemma Update_cmd_indep: "fst (snd (Update b m msg)) = fst (snd (Update b' m msg))"
  by (cases msg) (simp_all add: Update_def Let_def)

section \<open>The selection stays on the menu\<close>

lemma Update_Choice_range:
  assumes "Choice m \<in> {0, 1, 2, 3}"
  shows "Choice (fst (Update b m msg)) \<in> {0, 1, 2, 3}"
  using assms by (cases rule: Update_model_cases [of msg b m]) auto

lemma run_Choice_range:
  "Choice m \<in> {0, 1, 2, 3} \<Longrightarrow> Choice (run B n m evs) \<in> {0, 1, 2, 3}"
proof (induction evs arbitrary: m n)
  case Nil
  then show ?case by simp
next
  case (Cons e evs)
  from Cons.prems have "Choice (fst (Update (B n) m e)) \<in> {0, 1, 2, 3}"
    by (rule Update_Choice_range)
  from Cons.IH [OF this] show ?case by simp
qed

text \<open>
  Claim C1. Start from the model that \<open>teaHandler\<close> builds, whatever the geometry of the
  pty, and apply \<open>Update\<close> to any finite list of events (resize, keys bound or not, any
  other message), whatever the browser service answers: the selected index of the model
  reached, read as a signed number, lies between 0 and 3.
\<close>

theorem Choice_in_range:
  "0 \<le> sint (Choice (run B n (teaHandler render w h) evs)) \<and>
   sint (Choice (run B n (teaHandler render w h) evs)) \<le> 3"
proof -
  have "Choice (teaHandler render w h) \<in> {0, 1, 2, 3}"
    by (simp add: teaHandler_def)
  then have "Choice (run B n (teaHandler render w h) evs) \<in> {0, 1, 2, 3}"
    by (rule run_Choice_range)
  then show ?thesis by auto
qed

text \<open>Scenario 2 of the specification: three steps down reach the last entry, a fourth stays.\<close>

lemma three_downs_then_a_fourth:
  "Choice (run B 0 (teaHandler render w h) [KeyMsg ''j'', KeyMsg ''j'', KeyMsg ''j'']) = 3"
  "Choice (run B 0 (teaHandler render w h)
     [KeyMsg ''j'', KeyMsg ''j'', KeyMsg ''j'', KeyMsg ''j'']) = 3"
  by (simp_all add: Update_down_key teaHandler_def)

section \<open>Navigation\<close>

text \<open>
  Claim C2. For every model, a navigate-down key (\<open>j\<close> or \<open>down\<close>) sets the selected
  index to \<open>min(selectedIndex + 1, 3)\<close> and a navigate-up key (\<open>k\<close> or \<open>up\<close>) sets it
  to \<open>max(selectedIndex - 1, 0)\<close>; at index 3 a step down leaves the index at 3, and at
  index 0 a step up leaves it at 0. The sum and the difference are those of Go's
  \<open>int\<close>, as in the code's \<open>m.Choice++\<close> and \<open>m.Choice--\<close>, and minimum and maximum
  compare signed.
\<close>

theorem Update_navigate:
  "Choice (fst (Update b m (KeyMsg ''j''))) = smin (Choice m + 1) 3 \<and>
   Choice (fst (Update b m (KeyMsg ''down''))) = smin (Choice m + 1) 3 \<and>
   Choice (fst (Update b m (KeyMsg ''k''))) = smax (Choice m - 1) 0 \<and>
   Choice (fst (Update b m (KeyMsg ''up''))) = smax (Choice m - 1) 0 \<and>
   (Choice m = 3 \<longrightarrow> Choice (fst (Update b m (KeyMsg ''j''))) = 3 \<and>
                      Choice (fst (Update b m (KeyMsg ''down''))) = 3) \<and>
   (Choice m = 0 \<longrightarrow> Choice (fst (Update b m (KeyMsg ''k''))) = 0 \<and>
                      Choice (fst (Update b m (KeyMsg ''up''))) = 0)"
proof -
  have down: "(if 3 <s Choice m + 1 then 3 else Choice m + 1) = smin (Choice m + 1) 3"
    by (auto simp: smin_def)
  have up: "(if Choice m - 1 <s 0 then 0 else Choice m - 1) = smax (Choice m - 1) 0"
    by (auto simp: smax_def signed.le_less)
  have at3: "smin (3 + 1) 3 = 3" by (simp add: smin_def)
  have at0: "smax (0 - 1) 0 = 0" by (simp add: smax_def word_sle_eq)
  show ?thesis
    by (simp add: Update_down_key Update_up_key down up at3 at0)
qed

theorem Update_navigate_witness:
  "Choice (session0\<lparr>Choice := 3\<rparr>) = 3 \<and>
   Choice (fst (Update (browser_ok 0) (session0\<lparr>Choice := 3\<rparr>) (KeyMsg ''j''))) = 3 \<and>
   Choice session0 = 0 \<and>
   Choice (fst (Update (browser_ok 0) session0 (KeyMsg ''k''))) = 0"
proof -
  have at0: "Choice session0 = 0"
    by (simp add: session0_def teaHandler_def)
  show ?thesis
    using at0 Update_navigate [of "browser_ok 0" "session0\<lparr>Choice := 3\<rparr>"]
      Update_navigate [of "browser_ok 0" session0]
    by (simp add: smin_def smax_def word_sle_eq)
qed

text \<open>
  The same two steps read in the unbounded integers. A model whose index is the largest
  \<open>int\<close> steps down to the smallest, and one whose index is the smallest steps up to
  the largest: there Go's sum wraps, and so does the formula. No session reaches such a
  model, by \<open>run_Choice_range\<close>; everywhere else the sum is the integers' own.
\<close>

lemma sint_succ:
  fixes c :: goint
  assumes "sint c < 2 ^ 63 - 1"
  shows "sint (c + 1) = sint c + 1"
proof -
  have lo: "- (2 ^ 63) \<le> sint c" using sint_ge [of c] by simp
  have "sint (c + 1) = signed_take_bit 63 (sint c + 1)"
    by (simp add: sint_word_add)
  also have "\<dots> = sint c + 1"
    using lo assms by (simp add: signed_take_bit_int_eq_self)
  finally show ?thesis .
qed

lemma sint_pred:
  fixes c :: goint
  assumes "- (2 ^ 63) < sint c"
  shows "sint (c - 1) = sint c - 1"
proof -
  have hi: "sint c < 2 ^ 63" using sint_lt [of c] by simp
  have "sint (c - 1) = signed_take_bit 63 (sint c - 1)"
    by (simp add: sint_word_diff)
  also have "\<dots> = sint c - 1"
    using hi assms by (simp add: signed_take_bit_int_eq_self)
  finally show ?thesis .
qed

lemma Update_navigate_sint:
  "sint (Choice (fst (Update b m (KeyMsg ''j'')))) =
     (if sint (Choice m) = 2 ^ 63 - 1 then - (2 ^ 63) else min (sint (Choice m) + 1) 3)"
  "sint (Choice (fst (Update b m (KeyMsg ''k'')))) =
     (if sint (Choice m) = - (2 ^ 63) then 2 ^ 63 - 1 else max (sint (Choice m) - 1) 0)"
proof -
  have hi: "sint (Choice m) < 2 ^ 63" using sint_lt [of "Choice m"] by simp
  have lo: "- (2 ^ 63) \<le> sint (Choice m)" using sint_ge [of "Choice m"] by simp
  show "sint (Choice (fst (Update b m (KeyMsg ''j'')))) =
     (if sint (Choice m) = 2 ^ 63 - 1 then - (2 ^ 63) else min (sint (Choice m) + 1) 3)"
  proof (cases "sint (Choice m) = 2 ^ 63 - 1")
    case True
    then have "sint (Choice m + 1) = - (2 ^ 63)"
      by (simp add: sint_word_add)
    then show ?thesis using True
      by (simp add: Update_down_key word_sless_alt)
  next
    case False
    with hi have "sint (Choice m + 1) = sint (Choice m) + 1"
      by (intro sint_succ) simp
    then show ?thesis using False
      by (simp add: Update_down_key word_sless_alt)
  qed
  show "sint (Choice (fst (Update b m (KeyMsg ''k'')))) =
     (if sint (Choice m) = - (2 ^ 63) then 2 ^ 63 - 1 else max (sint (Choice m) - 1) 0)"
  proof (cases "sint (Choice m) = - (2 ^ 63)")
    case True
    then have "sint (Choice m - 1) = 2 ^ 63 - 1"
      by (simp add: sint_word_diff)
    then show ?thesis using True
      by (simp add: Update_up_key word_sless_alt)
  next
    case False
    with lo have "sint (Choice m - 1) = sint (Choice m) - 1"
      by (intro sint_pred) simp
    then show ?thesis using False
      by (simp add: Update_up_key word_sless_alt)
  qed
qed

section \<open>Activate and quit\<close>

text \<open>
  Claim C3. For every model whose selected index is 2, the \<open>enter\<close> key makes \<open>Update\<close>
  open the LinkedIn URL and return the model as it was; at index 0, 1 and 3 it opens the
  URL of the entry at that index (Resume / CV, GitHub, Twitter, in the order in which
  \<open>View\<close> lists them). The code opens the URL by calling \<open>browser.OpenURL\<close> inside
  \<open>Update\<close>, which is the one recorded effect; the \<open>tea.Cmd\<close> it returns is \<open>nil\<close>.
\<close>

theorem Update_enter_opens:
  "(Choice m = 2 \<longrightarrow>
      Update b m (KeyMsg ''enter'') = (m, None, [OpenURL LINKEDIN_URL (b LINKEDIN_URL)])) \<and>
   (Choice m = 0 \<longrightarrow>
      Update b m (KeyMsg ''enter'') = (m, None, [OpenURL RESUME_URL (b RESUME_URL)])) \<and>
   (Choice m = 1 \<longrightarrow>
      Update b m (KeyMsg ''enter'') = (m, None, [OpenURL GITHUB_URL (b GITHUB_URL)])) \<and>
   (Choice m = 3 \<longrightarrow>
      Update b m (KeyMsg ''enter'') = (m, None, [OpenURL TWITTER_URL (b TWITTER_URL)]))"
  by (simp add: Update_enter_key)

theorem Update_enter_opens_witness:
  "Choice (session0\<lparr>Choice := 2\<rparr>) = 2 \<and>
   Update (browser_down 0) (session0\<lparr>Choice := 2\<rparr>) (KeyMsg ''enter'') =
     (session0\<lparr>Choice := 2\<rparr>, None,
      [OpenURL ''https://www.linkedin.com/in/kaustubhpatange/''
         (Some ''exec: no browser found'')])"
  using Update_enter_opens [of "session0\<lparr>Choice := 2\<rparr>" "browser_down 0"]
  by (simp add: LINKEDIN_URL_def browser_down_def)

text \<open>
  Claim C4. For every model, so for every one a session reaches, the key \<open>q\<close> and the
  key \<open>ctrl+c\<close> make \<open>Update\<close> return the command \<open>tea.Quit\<close> and the model unchanged,
  with no other effect.
\<close>

theorem Update_quit:
  "Update b m (KeyMsg ''q'') = (m, Some Quit, []) \<and>
   Update b m (KeyMsg ''ctrl+c'') = (m, Some Quit, [])"
  by (simp add: Update_quit_key)

section \<open>Resize and unbound events\<close>

text \<open>
  Claim C5. For every model, a resize event sets width and height to exactly the values
  it reports, leaves the selected index, the \<open>Chosen\<close> flag and the six style fields as
  they were, returns no command and opens nothing.
\<close>

theorem Update_resize:
  "Update b m (WindowSizeMsg w h) = (m\<lparr>Width := w, Height := h\<rparr>, None, []) \<and>
   Width (fst (Update b m (WindowSizeMsg w h))) = w \<and>
   Height (fst (Update b m (WindowSizeMsg w h))) = h \<and>
   Choice (fst (Update b m (WindowSizeMsg w h))) = Choice m \<and>
   Chosen (fst (Update b m (WindowSizeMsg w h))) = Chosen m \<and>
   mainStyle (fst (Update b m (WindowSizeMsg w h))) = mainStyle m \<and>
   aboutStyle (fst (Update b m (WindowSizeMsg w h))) = aboutStyle m \<and>
   aboutNameStyle (fst (Update b m (WindowSizeMsg w h))) = aboutNameStyle m \<and>
   checkboxStyle (fst (Update b m (WindowSizeMsg w h))) = checkboxStyle m \<and>
   subtleStyle (fst (Update b m (WindowSizeMsg w h))) = subtleStyle m \<and>
   dotStyle (fst (Update b m (WindowSizeMsg w h))) = dotStyle m"
  by (simp add: Update_WindowSizeMsg)

text \<open>
  Claim C6. \<open>Update\<close> has a result, a model with a command or none, for every model
  and every message: no branch of it fails. For a message that is neither a resize nor a
  key, and for a key other than \<open>q\<close>, \<open>ctrl+c\<close>, \<open>j\<close>, \<open>down\<close>, \<open>k\<close>, \<open>up\<close> and
  \<open>enter\<close>, the result is the model unchanged, no command and no effect.
\<close>

theorem Update_total_other:
  "(\<exists>m' c es. Update b m msg = (m', c, es)) \<and>
   Update b m OtherMsg = (m, None, []) \<and>
   (k \<notin> {''q'', ''ctrl+c'', ''j'', ''down'', ''k'', ''up'', ''enter''} \<longrightarrow>
      Update b m (KeyMsg k) = (m, None, []))"
proof -
  have "\<exists>m' c es. Update b m msg = (m', c, es)"
    by (cases "Update b m msg") simp
  then show ?thesis
    using Update_unbound_key [of k b m] by (simp add: Update_OtherMsg)
qed

theorem Update_total_other_witness:
  "''x'' \<notin> {''q'', ''ctrl+c'', ''j'', ''down'', ''k'', ''up'', ''enter''} \<and>
   Update (browser_ok 0) session0 (KeyMsg ''x'') = (session0, None, [])"
  using Update_total_other [of "browser_ok 0" session0 OtherMsg "''x''"] by simp

section \<open>The checklist that View draws\<close>

lemma choices_lines:
  "choices render m =
     checkbox render (checkboxStyle m) ''Resume / CV'' (Choice m = 0) @ NL @
     checkbox render (checkboxStyle m) ''GitHub'' (Choice m = 1) @ NL @
     checkbox render (checkboxStyle m) ''Linkedin'' (Choice m = 2) @ NL @
     checkbox render (checkboxStyle m) ''Twitter'' (Choice m = 3)"
  by (simp add: choices_def Let_def)

text \<open>
  Claim C7. For every model whose selected index is 0, 1, 2 or 3, the checklist is the
  four lines Resume / CV, GitHub, Linkedin, Twitter in this order, separated by line
  feeds; the line at the selected index is \<open>[x] label\<close> rendered in the checkbox style,
  every other line is the plain text \<open>[ ] label\<close>. \<open>View\<close> places the checklist
  between the about paragraph and the footer. The model that \<open>teaHandler\<close> builds has
  index 0, so only its Resume / CV line is marked.
\<close>

theorem View_checkbox_lines:
  "(Choice m = 0 \<longrightarrow> choices render m =
      render (checkboxStyle m) ''[x] Resume / CV'' @ NL @ ''[ ] GitHub'' @ NL @
      ''[ ] Linkedin'' @ NL @ ''[ ] Twitter'') \<and>
   (Choice m = 1 \<longrightarrow> choices render m =
      ''[ ] Resume / CV'' @ NL @ render (checkboxStyle m) ''[x] GitHub'' @ NL @
      ''[ ] Linkedin'' @ NL @ ''[ ] Twitter'') \<and>
   (Choice m = 2 \<longrightarrow> choices render m =
      ''[ ] Resume / CV'' @ NL @ ''[ ] GitHub'' @ NL @
      render (checkboxStyle m) ''[x] Linkedin'' @ NL @ ''[ ] Twitter'') \<and>
   (Choice m = 3 \<longrightarrow> choices render m =
      ''[ ] Resume / CV'' @ NL @ ''[ ] GitHub'' @ NL @
      ''[ ] Linkedin'' @ NL @ render (checkboxStyle m) ''[x] Twitter'') \<and>
   View render m =
     render (mainStyle m)
       (NL @ about render m @ NL @ NL @ choices render m @ NL @ NL @ tpl render m @ NL @ NL) \<and>
   choices render (teaHandler render w h) =
     render (NewStyle\<lparr>bold := Some False, foreground := Some ''213''\<rparr>) ''[x] Resume / CV'' @
     NL @ ''[ ] GitHub'' @ NL @ ''[ ] Linkedin'' @ NL @ ''[ ] Twitter''"
proof -
  have "Choice (teaHandler render w h) = 0"
    and "checkboxStyle (teaHandler render w h) =
      NewStyle\<lparr>bold := Some False, foreground := Some ''213''\<rparr>"
    by (simp_all add: teaHandler_def)
  then show ?thesis
    by (simp add: choices_lines checkbox_def View_def Let_def)
qed

theorem View_checkbox_lines_witness:
  "Choice (teaHandler tag_render 80 24) = 0 \<and>
   choices tag_render (teaHandler tag_render 80 24) =
     ''<213>[x] Resume / CV</>'' @ NL @ ''[ ] GitHub'' @ NL @ ''[ ] Linkedin'' @ NL @
     ''[ ] Twitter''"
  using View_checkbox_lines [of "teaHandler tag_render 80 24" tag_render 80 24]
  by (simp add: teaHandler_def tag_render_def NewStyle_def)

section \<open>The outcome of opening a URL\<close>

lemma run_indep: "run B n m evs = run B' n m evs"
proof (induction evs arbitrary: m n)
  case Nil
  show ?case by simp
next
  case (Cons e evs)
  have "fst (Update (B n) m e) = fst (Update (B' n) m e)"
    by (rule Update_model_indep)
  then show ?case by (simp add: Cons.IH)
qed

lemma frames_indep: "frames render B n m evs = frames render B' n m evs"
proof (induction evs arbitrary: m n)
  case Nil
  show ?case by simp
next
  case (Cons e evs)
  have "fst (Update (B n) m e) = fst (Update (B' n) m e)"
    by (rule Update_model_indep)
  then show ?case by (simp add: Cons.IH)
qed

text \<open>
  Claim C8. What \<open>browser.OpenURL\<close> returns is never observed. Take two browser
  services \<open>b\<close> and \<open>b'\<close>, which may succeed and fail on different calls: one step of
  \<open>Update\<close> returns the same model and the same command under both. Take two histories
  \<open>B\<close> and \<open>B'\<close> of the service over a session: the same list of events leads to the
  same model and \<open>View\<close> draws the same list of frames.
\<close>

theorem open_outcome_unobserved:
  "fst (Update b m msg) = fst (Update b' m msg) \<and>
   fst (snd (Update b m msg)) = fst (snd (Update b' m msg)) \<and>
   run B n m evs = run B' n m evs \<and>
   frames render B n m evs = frames render B' n m evs"
  using Update_model_indep [of b m msg b'] Update_cmd_indep [of b m msg b']
    run_indep [of B n m evs B'] frames_indep [of render B n m evs B']
  by simp

text \<open>The two services do differ: the recorded call carries what it returned.\<close>

lemma outcomes_differ:
  "snd (snd (Update (browser_ok 0) (session0\<lparr>Choice := 2\<rparr>) (KeyMsg ''enter''))) \<noteq>
   snd (snd (Update (browser_down 0) (session0\<lparr>Choice := 2\<rparr>) (KeyMsg ''enter'')))"
  by (simp add: Update_enter_key browser_ok_def browser_down_def)

section \<open>Geometry\<close>

lemma Update_geometry_nonneg:
  assumes "0 \<le>s Width m \<and> 0 \<le>s Height m" and "nonneg_resize msg"
  shows "0 \<le>s Width (fst (Update b m msg)) \<and> 0 \<le>s Height (fst (Update b m msg))"
  using assms by (cases rule: Update_model_cases [of msg b m]) auto

lemma run_geometry_nonneg:
  "0 \<le>s Width m \<and> 0 \<le>s Height m \<Longrightarrow> \<forall>e \<in> set evs. nonneg_resize e \<Longrightarrow>
   0 \<le>s Width (run B n m evs) \<and> 0 \<le>s Height (run B n m evs)"
proof (induction evs arbitrary: m n)
  case Nil
  then show ?case by simp
next
  case (Cons e evs)
  have "0 \<le>s Width (fst (Update (B n) m e)) \<and> 0 \<le>s Height (fst (Update (B n) m e))"
    using Cons.prems by (intro Update_geometry_nonneg) simp_all
  then show ?case using Cons.prems by (simp add: Cons.IH)
qed

text \<open>An unsigned 32-bit number stored in Go's 64-bit \<open>int\<close> is not negative.\<close>

lemma widen_nonneg: "0 \<le>s (ucast (w :: uint32) :: goint)"
proof -
  have "uint w < 2 ^ 32" using uint_bounded [of w] by simp
  then have hi: "uint w < 2 ^ 63" by simp
  have "- (2 ^ 63) \<le> (0 :: int)" by simp
  also have "0 \<le> uint w" by simp
  finally have lo: "- (2 ^ 63) \<le> uint w" .
  have "sint (ucast w :: goint) = signed_take_bit 63 (uint w)"
    by (simp add: signed_ucast_eq)
  also have "\<dots> = uint w"
    using lo hi by (simp add: signed_take_bit_int_eq_self)
  finally show ?thesis by (simp add: word_sle_eq)
qed

lemma deliver_nonneg: "nonneg_resize (deliver e)"
  by (cases e) (simp_all add: widen_nonneg)

text \<open>
  Claim C9. The width and the height of the model are never negative: start from the
  model that \<open>teaHandler\<close> builds from the window of the session's pty and apply
  \<open>Update\<close> to any finite list of events that the session delivers; the stored width
  and height, read as signed numbers, are at least 0. \<open>Update\<close> and \<open>teaHandler\<close>
  store what they are given and check nothing: the sign is that of the terminal
  dimensions on the wire, which are unsigned.
\<close>

theorem geometry_never_negative:
  fixes w h :: uint32
  shows
  "0 \<le>s Width (run B n (teaHandler render (ucast w) (ucast h)) (map deliver evs)) \<and>
   0 \<le>s Height (run B n (teaHandler render (ucast w) (ucast h)) (map deliver evs))"
proof -
  have "0 \<le>s Width (teaHandler render (ucast w) (ucast h)) \<and>
        0 \<le>s Height (teaHandler render (ucast w) (ucast h))"
    by (simp add: teaHandler_def widen_nonneg)
  moreover have "\<forall>e \<in> set (map deliver evs). nonneg_resize e"
    by (simp add: deliver_nonneg)
  ultimately show ?thesis by (rule run_geometry_nonneg)
qed

text \<open>
  Scenario 5 of the specification, and the largest geometry the wire can carry: a
  resize from 80 to 40 columns changes the stored width and nothing of the selection,
  and the dimension \<open>0xFFFFFFFF\<close> is stored as 4294967295, not as -1.
\<close>

lemma resize_80_to_40:
  "Width (run B 0 (teaHandler render (ucast (80 :: uint32)) (ucast (24 :: uint32)))
     (map deliver [Resize 40 24])) = 40"
  "Height (run B 0 (teaHandler render (ucast (80 :: uint32)) (ucast (24 :: uint32)))
     (map deliver [Resize 40 24])) = 24"
  "Choice (run B 0 (teaHandler render (ucast (80 :: uint32)) (ucast (24 :: uint32)))
     (map deliver [Resize 40 24])) = 0"
  by (simp_all add: teaHandler_def Update_WindowSizeMsg)

lemma largest_wire_geometry:
  "sint (Width (run B 0 (teaHandler render (ucast (80 :: uint32)) (ucast (24 :: uint32)))
     (map deliver [Resize 0xFFFFFFFF 0xFFFFFFFF]))) = 4294967295"
  by (simp add: Update_WindowSizeMsg)

section \<open>What Update never touches\<close>

lemma run_fields:
  "Chosen (run B n m evs) = Chosen m \<and>
   mainStyle (run B n m evs) = mainStyle m \<and>
   aboutStyle (run B n m evs) = aboutStyle m \<and>
   aboutNameStyle (run B n m evs) = aboutNameStyle m \<and>
   checkboxStyle (run B n m evs) = checkboxStyle m \<and>
   subtleStyle (run B n m evs) = subtleStyle m \<and>
   dotStyle (run B n m evs) = dotStyle m"
  by (induction evs arbitrary: m n) (simp_all add: Update_fields)

text \<open>
  Claim C10. For every model and every message, the model that \<open>Update\<close> returns has
  the \<open>Chosen\<close> flag and the six style fields of the model it was given: it is that
  model with, at most, other values of \<open>Width\<close>, \<open>Height\<close> and \<open>Choice\<close>.
  \<open>teaHandler\<close> sets \<open>Chosen\<close> to false, and it is false after every list of events.
\<close>

theorem Update_keeps_Chosen_and_styles:
  "Chosen (fst (Update b m msg)) = Chosen m \<and>
   mainStyle (fst (Update b m msg)) = mainStyle m \<and>
   aboutStyle (fst (Update b m msg)) = aboutStyle m \<and>
   aboutNameStyle (fst (Update b m msg)) = aboutNameStyle m \<and>
   checkboxStyle (fst (Update b m msg)) = checkboxStyle m \<and>
   subtleStyle (fst (Update b m msg)) = subtleStyle m \<and>
   dotStyle (fst (Update b m msg)) = dotStyle m \<and>
   fst (Update b m msg) =
     m\<lparr>Width := Width (fst (Update b m msg)),
       Height := Height (fst (Update b m msg)),
       Choice := Choice (fst (Update b m msg))\<rparr> \<and>
   \<not> Chosen (teaHandler render w h) \<and>
   \<not> Chosen (run B n (teaHandler render w h) evs)"
proof -
  have "\<not> Chosen (teaHandler render w h)"
    by (simp add: teaHandler_def)
  moreover from this have "\<not> Chosen (run B n (teaHandler render w h) evs)"
    by (simp add: run_fields)
  ultimately show ?thesis
    using Update_only_geometry_and_choice [of b m msg] by (simp add: Update_fields)
qed

end
